theory Spec2Isabelle
  imports Complex_Main
begin

section \<open>The icon set generator \<open>generate_icons.py\<close>\<close>

text \<open>
  The script resizes one master image into eighteen derivative icons with the external
  tool \<open>sips\<close> and writes a JSON manifest \<open>Contents.json\<close> describing the icons that were
  produced. Everything the script does beyond computing values is an effect on its
  environment, so the embedding passes an explicit \<open>world\<close> through every function:
  the files on disk, the lines printed, and the commands the script launched.
\<close>

subsection \<open>Python values\<close>

text \<open>
  The logical sizes of the configuration table are Python \<open>int\<close>s, except one \<open>float\<close>
  (\<open>83.5\<close>). A float is modelled by the rational number it denotes. This is exact for the
  values the script computes with: \<open>83.5\<close> and \<open>83.5 * 2 = 167.0\<close> are both representable
  in binary floating point, so the product is not rounded.
\<close>

datatype number = PyInt int | PyFloat rat

text \<open>The values that \<open>json.dump\<close> serialises. A \<open>dict\<close> keeps the insertion order of
  its keys, which is the order of serialisation, so it is an association list.\<close>

datatype pyval =
    VStr string
  | VInt int
  | VList "pyval list"
  | VDict "(string \<times> pyval) list"

text \<open>
  The exceptions of \<open>subprocess.run\<close>: \<open>CalledProcessError\<close> carries the non-zero exit
  status of a process that ran; an \<open>OSError\<close> says that no process could be started.
  A call returns a value, or an exception leaves it.
\<close>

datatype os_error =
  FileNotFoundError | PermissionError | BlockingIOError | IsADirectoryError | NoSpaceLeft

datatype exn = CalledProcessError int | OSError os_error

datatype 'a result = Returned 'a | Raised exn

subsection \<open>The environment\<close>

datatype content = Image int int | Text string

text \<open>
  What happens when the script opens a path for writing and writes a text to it. The
  text is stored; or \<open>open\<close> raises (the path is a directory, or may not be written)
  and the file is untouched; or the file is opened, which empties it, and writing raises
  after some characters have reached it (the disk is full).
\<close>

datatype write_outcome = Written | Open_failed os_error | Write_failed os_error nat

record world =
  files :: "string \<rightharpoonup> content"
  stdout :: "string list"
  launched :: "string list list"
  on_write :: "string \<Rightarrow> write_outcome"

text \<open>
  The external tool is a parameter of the model. For each command line it says how the
  process ends: it exits with a status, or it could not be started at all (the
  executable is missing or may not be executed), in which case \<open>subprocess.run\<close> raises
  the corresponding \<open>OSError\<close>.
\<close>

datatype outcome = Exited int | Not_started os_error

type_synonym tool = "string list \<Rightarrow> outcome"

definition print :: "string \<Rightarrow> world \<Rightarrow> world" where
  "print line w = w\<lparr>stdout := stdout w @ [line]\<rparr>"

definition os_path_exists :: "world \<Rightarrow> string \<Rightarrow> bool" where
  "os_path_exists w path = (files w path \<noteq> None)"

text \<open>\<open>os.path.join\<close> of two components, on a POSIX system.\<close>

definition os_path_join :: "string \<Rightarrow> string \<Rightarrow> string" where
  "os_path_join a b =
     (if b \<noteq> [] \<and> hd b = CHR ''/'' then b
      else if a = [] \<or> last a = CHR ''/'' then a @ b
      else a @ ''/'' @ b)"

text \<open>
  \<open>with open(path, "w") as f:\<close> followed by writing \<open>text\<close> to \<open>f\<close>. Where it succeeds
  the file is created or replaced. Where it does not, the \<open>OSError\<close> leaves the
  \<open>with\<close> statement; nothing in the script handles it.
\<close>

definition write_file :: "string \<Rightarrow> string \<Rightarrow> world \<Rightarrow> unit result \<times> world" where
  "write_file path text w =
     (case on_write w path of
        Written \<Rightarrow> (Returned (), w\<lparr>files := (files w)(path \<mapsto> Text text)\<rparr>)
      | Open_failed e \<Rightarrow> (Raised (OSError e), w)
      | Write_failed e n \<Rightarrow>
          (Raised (OSError e), w\<lparr>files := (files w)(path \<mapsto> Text (take n text))\<rparr>))"

subsection \<open>Formatting numbers\<close>

definition digit_char :: "nat \<Rightarrow> char" where
  "digit_char d = ''0123456789'' ! d"

fun str_nat :: "nat \<Rightarrow> string" where
  "str_nat n = (if n < 10 then [digit_char n] else str_nat (n div 10) @ [digit_char (n mod 10)])"

declare str_nat.simps [simp del]

text \<open>\<open>str(i)\<close> for a Python \<open>int\<close>.\<close>

definition str_int :: "int \<Rightarrow> string" where
  "str_int i = (if i < 0 then ''-'' @ str_nat (nat (- i)) else str_nat (nat i))"

text \<open>
  The digits after the decimal point of a float whose decimal expansion ends. Python
  prints the shortest decimal that reads back as the same float; for the floats of this
  script (\<open>83.5\<close>, \<open>167.0\<close>) that is the exact expansion computed here.
\<close>

fun frac_digits :: "nat \<Rightarrow> rat \<Rightarrow> string" where
  "frac_digits 0 r = []"
| "frac_digits (Suc k) r =
     (let d = \<lfloor>r * 10\<rfloor>; r' = r * 10 - of_int d
      in digit_char (nat d) # (if r' = 0 then [] else frac_digits k r'))"

definition str_float :: "rat \<Rightarrow> string" where
  "str_float q =
     (let a = \<bar>q\<bar>; n = \<lfloor>a\<rfloor>
      in (if q < 0 then ''-'' else []) @ str_int n @ ''.'' @ frac_digits 17 (a - of_int n))"

text \<open>\<open>f"{x}"\<close> for a number.\<close>

fun format_number :: "number \<Rightarrow> string" where
  "format_number (PyInt i) = str_int i"
| "format_number (PyFloat q) = str_float q"

text \<open>\<open>x * k\<close> for a number and an \<open>int\<close>: the product with a float is a float.\<close>

fun times_int :: "number \<Rightarrow> int \<Rightarrow> number" where
  "times_int (PyInt i) k = PyInt (i * k)"
| "times_int (PyFloat q) k = PyFloat (q * of_int k)"

text \<open>\<open>int(x)\<close>: a float loses its fractional part, towards zero.\<close>

fun py_int :: "number \<Rightarrow> int" where
  "py_int (PyInt i) = i"
| "py_int (PyFloat q) = (if 0 \<le> q then \<lfloor>q\<rfloor> else \<lceil>q\<rceil>)"

text \<open>Python compares an \<open>int\<close> with a \<open>float\<close> by value.\<close>

fun value_of :: "number \<Rightarrow> rat" where
  "value_of (PyInt i) = of_int i"
| "value_of (PyFloat q) = q"

definition differs :: "number \<Rightarrow> number \<Rightarrow> bool" where
  "differs x y = (value_of x \<noteq> value_of y)"

subsection \<open>\<open>json.dump\<close> with an indentation\<close>

definition hex_digit :: "nat \<Rightarrow> char" where
  "hex_digit d = ''0123456789abcdef'' ! d"

text \<open>With \<open>ensure_ascii\<close> (the default) every character outside the printable ASCII
  range is escaped, as are the quotation mark and the backslash.\<close>

definition escape_char :: "char \<Rightarrow> string" where
  "escape_char c =
     (if c = CHR 0x22 then [CHR 0x5C, CHR 0x22]
      else if c = CHR 0x5C then [CHR 0x5C, CHR 0x5C]
      else if c = CHR 0x0A then [CHR 0x5C, CHR ''n'']
      else if c = CHR 0x0D then [CHR 0x5C, CHR ''r'']
      else if c = CHR 0x09 then [CHR 0x5C, CHR ''t'']
      else if c = CHR 0x08 then [CHR 0x5C, CHR ''b'']
      else if c = CHR 0x0C then [CHR 0x5C, CHR ''f'']
      else if (of_char c :: nat) < 32 \<or> 126 < (of_char c :: nat)
        then [CHR 0x5C, CHR ''u'', CHR ''0'', CHR ''0'',
              hex_digit (of_char c div 16), hex_digit (of_char c mod 16)]
      else [c])"

definition json_string :: "string \<Rightarrow> string" where
  "json_string s = [CHR 0x22] @ concat (map escape_char s) @ [CHR 0x22]"

fun join_with :: "string \<Rightarrow> string list \<Rightarrow> string" where
  "join_with sep [] = []"
| "join_with sep [x] = x"
| "join_with sep (x # y # ys) = x @ sep @ join_with sep (y # ys)"

definition newline_indent :: "string \<Rightarrow> nat \<Rightarrow> string" where
  "newline_indent ind level = CHR 0x0A # concat (replicate level ind)"

text \<open>
  The encoder at nesting depth \<open>level\<close>. An empty list or dict is written without a line
  break; otherwise every item starts on a line of its own, one level deeper, items are
  separated by a comma, and a key is separated from its value by a colon and a space.
\<close>

fun encode :: "string \<Rightarrow> nat \<Rightarrow> pyval \<Rightarrow> string" where
  "encode ind level (VStr s) = json_string s"
| "encode ind level (VInt i) = str_int i"
| "encode ind level (VList xs) =
     (if xs = [] then ''[]''
      else ''['' @ newline_indent ind (Suc level)
           @ join_with ('','' @ newline_indent ind (Suc level))
               (map (encode ind (Suc level)) xs)
           @ newline_indent ind level @ '']'')"
| "encode ind level (VDict kvs) =
     (if kvs = [] then ''{}''
      else ''{'' @ newline_indent ind (Suc level)
           @ join_with ('','' @ newline_indent ind (Suc level))
               (map (\<lambda>kv. json_string (fst kv) @ '': '' @ encode ind (Suc level) (snd kv)) kvs)
           @ newline_indent ind level @ ''}'')"

text \<open>\<open>json.dump(obj, f, indent=n)\<close> writes this text to \<open>f\<close>.\<close>

definition json_dumps :: "nat \<Rightarrow> pyval \<Rightarrow> string" where
  "json_dumps n obj = encode (replicate n CHR '' '') 0 obj"

subsection \<open>\<open>resize_image\<close>\<close>

text \<open>The command line of the tool; \<open>sips -z\<close> takes the height before the width.\<close>

definition sips_argv :: "string \<Rightarrow> string \<Rightarrow> int \<Rightarrow> int \<Rightarrow> string list" where
  "sips_argv input_path output_path width height =
     [''sips'', ''-z'', str_int height, str_int width, input_path, ''--out'', output_path]"

text \<open>
  \<open>subprocess.run([...], check=True, stdout=subprocess.DEVNULL)\<close>. With \<open>check=True\<close> a
  non-zero exit status raises \<open>CalledProcessError\<close>; a process that cannot be started
  raises before any status exists. A successful run of the tool leaves an image of the
  requested size at the output path, replacing what was there; a failed run is taken to
  leave the files as they were.
\<close>

definition subprocess_run ::
    "tool \<Rightarrow> string \<Rightarrow> string \<Rightarrow> int \<Rightarrow> int \<Rightarrow> world \<Rightarrow> unit result \<times> world" where
  "subprocess_run sips input_path output_path width height w =
     (let argv = sips_argv input_path output_path width height;
          w1 = w\<lparr>launched := launched w @ [argv]\<rparr>
      in case sips argv of
           Not_started e \<Rightarrow> (Raised (OSError e), w1)
         | Exited status \<Rightarrow>
             if status = 0
             then (Returned (), w1\<lparr>files := (files w1)(output_path \<mapsto> Image width height)\<rparr>)
             else (Raised (CalledProcessError status), w1))"

text \<open>The \<open>try\<close> statement of \<open>resize_image\<close>: its only handler is for
  \<open>CalledProcessError\<close>; any other exception leaves the function.\<close>

definition resize_image ::
    "tool \<Rightarrow> string \<Rightarrow> string \<Rightarrow> int \<Rightarrow> int \<Rightarrow> world \<Rightarrow> bool result \<times> world" where
  "resize_image sips input_path output_path width height w =
     (case subprocess_run sips input_path output_path width height w of
        (Returned u, w1) \<Rightarrow> (Returned True, w1)
      | (Raised (CalledProcessError status), w1) \<Rightarrow>
          (Returned False,
           print (''Failed to resize '' @ input_path @ '' to '' @ output_path) w1)
      | (Raised (OSError e), w1) \<Rightarrow> (Raised (OSError e), w1))"

subsection \<open>\<open>generate_icons\<close>\<close>

definition base_dir :: string where
  "base_dir = ''/Users/ameen/Documents/ScreenTime-BMAD/ScreenTimeRewardsProject/ScreenTimeRewards/Assets.xcassets/AppIcon.appiconset''"

definition master_icon :: string where
  "master_icon = os_path_join base_dir ''AppIcon.png''"

text \<open>The configurations: file name suffix, size in points, scale, idiom.\<close>

type_synonym config = "string \<times> number \<times> int \<times> string"

definition configs :: "config list" where
  "configs =
     [(''20x20@2x'', PyInt 20, 2, ''iphone''),
      (''20x20@3x'', PyInt 20, 3, ''iphone''),
      (''29x29@2x'', PyInt 29, 2, ''iphone''),
      (''29x29@3x'', PyInt 29, 3, ''iphone''),
      (''40x40@2x'', PyInt 40, 2, ''iphone''),
      (''40x40@3x'', PyInt 40, 3, ''iphone''),
      (''60x60@2x'', PyInt 60, 2, ''iphone''),
      (''60x60@3x'', PyInt 60, 3, ''iphone''),
      (''20x20~ipad'', PyInt 20, 1, ''ipad''),
      (''20x20@2x~ipad'', PyInt 20, 2, ''ipad''),
      (''29x29~ipad'', PyInt 29, 1, ''ipad''),
      (''29x29@2x~ipad'', PyInt 29, 2, ''ipad''),
      (''40x40~ipad'', PyInt 40, 1, ''ipad''),
      (''40x40@2x~ipad'', PyInt 40, 2, ''ipad''),
      (''76x76~ipad'', PyInt 76, 1, ''ipad''),
      (''76x76@2x~ipad'', PyInt 76, 2, ''ipad''),
      (''83.5x83.5@2x~ipad'', PyFloat (167 / 2), 2, ''ipad''),
      (''1024x1024'', PyInt 1024, 1, ''ios-marketing'')]"

text \<open>The values the loop body computes from one configuration.\<close>

fun filename :: "config \<Rightarrow> string" where
  "filename (suffix, size_pt, scale, idiom) = ''Icon-'' @ suffix @ ''.png''"

definition output_path :: "config \<Rightarrow> string" where
  "output_path c = os_path_join base_dir (filename c)"

fun px :: "config \<Rightarrow> int" where
  "px (suffix, size_pt, scale, idiom) = py_int (times_int size_pt scale)"

fun entry :: "config \<Rightarrow> pyval" where
  "entry (suffix, size_pt, scale, idiom) =
     VDict [(''size'', VStr (if differs size_pt (PyFloat (167 / 2))
                             then format_number size_pt @ ''x'' @ format_number size_pt
                             else ''83.5x83.5'')),
            (''idiom'', VStr idiom),
            (''filename'', VStr (filename (suffix, size_pt, scale, idiom))),
            (''scale'', VStr (str_int scale @ ''x''))]"

text \<open>The \<open>for\<close> loop over the configurations still to be processed; \<open>json_images\<close> is
  the list built so far.\<close>

fun icon_loop :: "tool \<Rightarrow> config list \<Rightarrow> pyval list \<Rightarrow> world \<Rightarrow> pyval list result \<times> world" where
  "icon_loop sips [] json_images w = (Returned json_images, w)"
| "icon_loop sips (c # cs) json_images w =
     (case resize_image sips master_icon (output_path c) (px c) (px c) w of
        (Raised e, w1) \<Rightarrow> (Raised e, w1)
      | (Returned ok, w1) \<Rightarrow>
          if ok then icon_loop sips cs (json_images @ [entry c]) w1
          else icon_loop sips cs json_images w1)"

definition contents :: "pyval list \<Rightarrow> pyval" where
  "contents json_images =
     VDict [(''images'', VList json_images),
            (''info'', VDict [(''version'', VInt 1), (''author'', VStr ''xcode'')])]"

definition manifest_path :: string where
  "manifest_path = os_path_join base_dir ''Contents.json''"

definition generate_icons :: "tool \<Rightarrow> world \<Rightarrow> unit result \<times> world" where
  "generate_icons sips w =
     (if \<not> os_path_exists w master_icon
      then (Returned (), print (''Error: Master icon not found at '' @ master_icon) w)
      else
        case resize_image sips master_icon master_icon 1024 1024 w of
          (Raised e, w1) \<Rightarrow> (Raised e, w1)
        | (Returned normalized, w1) \<Rightarrow>
            (case icon_loop sips configs [] w1 of
               (Raised e, w2) \<Rightarrow> (Raised e, w2)
             | (Returned json_images, w2) \<Rightarrow>
                 (case write_file manifest_path (json_dumps 2 (contents json_images)) w2 of
                    (Raised e, w3) \<Rightarrow> (Raised e, w3)
                  | (Returned u, w3) \<Rightarrow>
                      (Returned (),
                       print ''Successfully generated icons and Contents.json'' w3))))"

subsection \<open>Vocabulary for the statements\<close>

text \<open>The command of the in-place normalisation of the master image, and the command
  the loop launches for a configuration.\<close>

definition normalize_command :: "string list" where
  "normalize_command = sips_argv master_icon master_icon 1024 1024"

definition command :: "config \<Rightarrow> string list" where
  "command c = sips_argv master_icon (output_path c) (px c) (px c)"

definition succeeds :: "tool \<Rightarrow> config \<Rightarrow> bool" where
  "succeeds sips c = (sips (command c) = Exited 0)"

definition exits :: "tool \<Rightarrow> string list \<Rightarrow> bool" where
  "exits sips argv = (case sips argv of Exited status \<Rightarrow> True | Not_started e \<Rightarrow> False)"

definition failure_line :: "config \<Rightarrow> string" where
  "failure_line c = ''Failed to resize '' @ master_icon @ '' to '' @ output_path c"

text \<open>The files after the loop has processed \<open>cs\<close>: every successful resize has stored
  its image.\<close>

definition store_outputs :: "tool \<Rightarrow> config list \<Rightarrow> (string \<rightharpoonup> content) \<Rightarrow> (string \<rightharpoonup> content)" where
  "store_outputs sips cs fs =
     fold (\<lambda>c f. if succeeds sips c then f(output_path c \<mapsto> Image (px c) (px c)) else f) cs fs"

text \<open>
  The environment in which the manifest is written, when the normalisation of the master
  has ended with exit status \<open>s0\<close> and the loop has processed every configuration.
\<close>

definition after_loop :: "tool \<Rightarrow> int \<Rightarrow> world \<Rightarrow> world" where
  "after_loop sips s0 w =
     w\<lparr>files := store_outputs sips configs
                  (if s0 = 0 then (files w)(master_icon \<mapsto> Image 1024 1024) else files w),
       stdout := stdout w
                 @ (if s0 = 0 then []
                    else [''Failed to resize '' @ master_icon @ '' to '' @ master_icon])
                 @ map failure_line (filter (\<lambda>c. \<not> succeeds sips c) configs),
       launched := launched w @ normalize_command # map command configs\<rparr>"

text \<open>The fields of a serialised object, and the value of one field.\<close>

fun keys :: "pyval \<Rightarrow> string list" where
  "keys (VDict kvs) = map fst kvs"
| "keys v = []"

fun field :: "string \<Rightarrow> pyval \<Rightarrow> pyval option" where
  "field k (VDict kvs) = map_of kvs k"
| "field k v = None"


text \<open>
  Truncation towards zero, as a property: \<open>t\<close> is the integer part of \<open>q\<close> when it has
  the sign of \<open>q\<close> and its magnitude is the largest integer not above that of \<open>q\<close>.
\<close>

definition truncation_of :: "rat \<Rightarrow> int \<Rightarrow> bool" where
  "truncation_of q t =
     (0 \<le> of_int t * q \<and> \<bar>of_int t\<bar> \<le> \<bar>q\<bar> \<and> \<bar>q\<bar> < \<bar>of_int t\<bar> + 1)"

subsection \<open>Example environments\<close>

definition empty_world :: world where
  "empty_world =
     \<lparr>files = Map.empty, stdout = [], launched = [], on_write = (\<lambda>path. Written)\<rparr>"

text \<open>A directory holding a master image of another size and a manifest of an earlier
  run.\<close>

definition example_world :: world where
  "example_world =
     \<lparr>files = [master_icon \<mapsto> Image 2048 2048, manifest_path \<mapsto> Text ''stale''],
      stdout = [], launched = [], on_write = (\<lambda>path. Written)\<rparr>"

text \<open>The same directory, in which no file may be opened for writing.\<close>

definition read_only_world :: world where
  "read_only_world = example_world\<lparr>on_write := (\<lambda>path. Open_failed PermissionError)\<rparr>"

definition all_succeed :: tool where
  "all_succeed argv = Exited 0"

definition all_fail :: tool where
  "all_fail argv = Exited 1"

text \<open>The tool is not installed: no process can be started.\<close>

definition not_installed :: tool where
  "not_installed argv = Not_started FileNotFoundError"

text \<open>Only the in-place normalisation of the master fails.\<close>

definition normalize_fails :: tool where
  "normalize_fails argv = (if argv = normalize_command then Exited 1 else Exited 0)"

text \<open>Only the resize for the 83.5 point icon fails.\<close>

definition one_fails :: tool where
  "one_fails argv = (if argv = command (configs ! 16) then Exited 1 else Exited 0)"

text \<open>The process for the second configuration cannot be started.\<close>

definition second_not_started :: tool where
  "second_not_started argv =
     (if argv = command (configs ! 1) then Not_started BlockingIOError else Exited 0)"

section \<open>Properties of the resize step and of the loop\<close>

lemma resize_image_zero:
  "sips (sips_argv i out wd h) = Exited 0 \<Longrightarrow>
   resize_image sips i out wd h w =
     (Returned True, w\<lparr>files := (files w)(out \<mapsto> Image wd h),
                        launched := launched w @ [sips_argv i out wd h]\<rparr>)"
  by (simp add: resize_image_def subprocess_run_def)

lemma resize_image_nonzero:
  "sips (sips_argv i out wd h) = Exited status \<Longrightarrow> status \<noteq> 0 \<Longrightarrow>
   resize_image sips i out wd h w =
     (Returned False, w\<lparr>stdout := stdout w @ [''Failed to resize '' @ i @ '' to '' @ out],
                         launched := launched w @ [sips_argv i out wd h]\<rparr>)"
  by (simp add: resize_image_def subprocess_run_def print_def)

lemma resize_image_not_started:
  "sips (sips_argv i out wd h) = Not_started e \<Longrightarrow>
   resize_image sips i out wd h w =
     (Raised (OSError e), w\<lparr>launched := launched w @ [sips_argv i out wd h]\<rparr>)"
  by (simp add: resize_image_def subprocess_run_def)

lemma icon_loop_exits:
  "\<forall>c\<in>set cs. exits sips (command c) \<Longrightarrow>
   icon_loop sips cs acc w =
     (Returned (acc @ map entry (filter (succeeds sips) cs)),
      w\<lparr>files := store_outputs sips cs (files w),
        stdout := stdout w @ map failure_line (filter (\<lambda>c. \<not> succeeds sips c) cs),
        launched := launched w @ map command cs\<rparr>)"
proof (induction cs arbitrary: acc w)
  case Nil
  then show ?case by (simp add: store_outputs_def)
next
  case (Cons c cs)
  from Cons.prems obtain status where st: "sips (command c) = Exited status"
    by (auto simp: exits_def split: outcome.splits)
  from Cons.prems have rest: "\<forall>c\<in>set cs. exits sips (command c)" by simp
  show ?case
  proof (cases "status = 0")
    case True
    with st have "resize_image sips master_icon (output_path c) (px c) (px c) w =
      (Returned True, w\<lparr>files := (files w)(output_path c \<mapsto> Image (px c) (px c)),
                        launched := launched w @ [command c]\<rparr>)"
      using resize_image_zero [of sips master_icon "output_path c" "px c" "px c" w]
      by (simp add: command_def)
    with True st show ?thesis
      by (simp add: Cons.IH [OF rest] succeeds_def store_outputs_def)
  next
    case False
    with st have "resize_image sips master_icon (output_path c) (px c) (px c) w =
      (Returned False, w\<lparr>stdout := stdout w @ [failure_line c],
                         launched := launched w @ [command c]\<rparr>)"
      using resize_image_nonzero [of sips master_icon "output_path c" "px c" "px c" status w]
      by (simp add: command_def failure_line_def)
    with False st show ?thesis
      by (simp add: Cons.IH [OF rest] succeeds_def store_outputs_def)
  qed
qed

lemma store_outputs_other:
  "p \<notin> output_path ` set cs \<Longrightarrow> store_outputs sips cs fs p = fs p"
  unfolding store_outputs_def
  by (induction cs arbitrary: fs) auto

lemma store_outputs_Cons:
  "store_outputs sips (c # cs) fs =
     store_outputs sips cs (if succeeds sips c then fs(output_path c \<mapsto> Image (px c) (px c)) else fs)"
  by (simp add: store_outputs_def)

lemma store_outputs_at:
  "distinct (map output_path cs) \<Longrightarrow> c \<in> set cs \<Longrightarrow>
   store_outputs sips cs fs (output_path c) =
     (if succeeds sips c then Some (Image (px c) (px c)) else fs (output_path c))"
proof (induction cs arbitrary: fs)
  case Nil
  then show ?case by simp
next
  case (Cons a cs)
  show ?case
  proof (cases "c = a")
    case True
    with Cons.prems have "output_path c \<notin> output_path ` set cs" by auto
    with True show ?thesis
      by (simp add: store_outputs_Cons store_outputs_other)
  next
    case False
    with Cons.prems have "c \<in> set cs" "output_path a \<noteq> output_path c" by auto
    with Cons.prems Cons.IH show ?thesis
      by (simp add: store_outputs_Cons)
  qed
qed

lemma all_paths_distinct: "distinct (manifest_path # master_icon # map output_path configs)"
  by code_simp

lemma length_configs: "length configs = 18"
  by (simp add: configs_def)

lemma master_not_output: "master_icon \<notin> output_path ` set configs"
  using all_paths_distinct by auto

lemma manifest_not_output: "manifest_path \<notin> output_path ` set configs"
  using all_paths_distinct by auto

lemma manifest_not_master: "manifest_path \<noteq> master_icon"
  using all_paths_distinct by auto

lemma outputs_distinct: "distinct (map output_path configs)"
  using all_paths_distinct by simp

lemma generate_icons_reaches_write:
  assumes master: "files w master_icon \<noteq> None"
    and norm: "sips normalize_command = Exited s0"
    and loop: "\<forall>c\<in>set configs. exits sips (command c)"
  shows "generate_icons sips w =
     (case write_file manifest_path
             (json_dumps 2 (contents (map entry (filter (succeeds sips) configs))))
             (after_loop sips s0 w) of
        (Raised e, w3) \<Rightarrow> (Raised e, w3)
      | (Returned u, w3) \<Rightarrow>
          (Returned (), print ''Successfully generated icons and Contents.json'' w3))"
proof (cases "s0 = 0")
  case True
  with norm have "resize_image sips master_icon master_icon 1024 1024 w =
      (Returned True, w\<lparr>files := (files w)(master_icon \<mapsto> Image 1024 1024),
                        launched := launched w @ [normalize_command]\<rparr>)"
    using resize_image_zero [of sips master_icon master_icon 1024 1024 w]
    by (simp add: normalize_command_def)
  with True master show ?thesis
    by (simp add: generate_icons_def os_path_exists_def icon_loop_exits [OF loop]
        after_loop_def)
next
  case False
  with norm have "resize_image sips master_icon master_icon 1024 1024 w =
      (Returned False, w\<lparr>stdout := stdout w @ [''Failed to resize '' @ master_icon @ '' to '' @ master_icon],
                         launched := launched w @ [normalize_command]\<rparr>)"
    using resize_image_nonzero [of sips master_icon master_icon 1024 1024 s0 w]
    by (simp add: normalize_command_def)
  with False master show ?thesis
    by (simp add: generate_icons_def os_path_exists_def icon_loop_exits [OF loop]
        after_loop_def)
qed

lemma generate_icons_exits:
  assumes master: "files w master_icon \<noteq> None"
    and norm: "sips normalize_command = Exited s0"
    and loop: "\<forall>c\<in>set configs. exits sips (command c)"
    and written: "on_write w manifest_path = Written"
  shows "generate_icons sips w =
     (Returned (),
      w\<lparr>files := (store_outputs sips configs
                    (if s0 = 0 then (files w)(master_icon \<mapsto> Image 1024 1024) else files w))
                  (manifest_path \<mapsto>
                     Text (json_dumps 2 (contents (map entry (filter (succeeds sips) configs))))),
        stdout := stdout w
                  @ (if s0 = 0 then [] else [''Failed to resize '' @ master_icon @ '' to '' @ master_icon])
                  @ map failure_line (filter (\<lambda>c. \<not> succeeds sips c) configs)
                  @ [''Successfully generated icons and Contents.json''],
        launched := launched w @ normalize_command # map command configs\<rparr>)"
  using written
  by (simp add: generate_icons_reaches_write [OF master norm loop] write_file_def
      after_loop_def print_def)

lemma generate_icons_all_launched:
  assumes master: "files w master_icon \<noteq> None"
    and norm: "sips normalize_command = Exited s0"
    and loop: "\<forall>c\<in>set configs. exits sips (command c)"
  shows "launched (snd (generate_icons sips w)) =
     launched w @ normalize_command # map command configs"
  by (simp add: generate_icons_reaches_write [OF master norm loop] write_file_def
      after_loop_def print_def split: write_outcome.splits)

lemma write_failure_example:
  "fst (generate_icons all_succeed read_only_world) = Raised (OSError PermissionError)
   \<and> files (snd (generate_icons all_succeed read_only_world)) manifest_path =
       Some (Text ''stale'')
   \<and> stdout (snd (generate_icons all_succeed read_only_world)) = []"
proof -
  have master: "files read_only_world master_icon \<noteq> None"
    using manifest_not_master by (simp add: read_only_world_def example_world_def)
  have norm: "all_succeed normalize_command = Exited 0"
    by (simp add: all_succeed_def)
  have loop: "\<forall>c\<in>set configs. exits all_succeed (command c)"
    by (simp add: exits_def all_succeed_def)
  have refused: "on_write (after_loop all_succeed 0 read_only_world) manifest_path =
      Open_failed PermissionError"
    by (simp add: after_loop_def read_only_world_def)
  have run: "generate_icons all_succeed read_only_world =
      (Raised (OSError PermissionError), after_loop all_succeed 0 read_only_world)"
    using refused
    by (simp add: generate_icons_reaches_write [OF master norm loop] write_file_def)
  have "filter (\<lambda>c. \<not> succeeds all_succeed c) configs = []"
    by (simp add: succeeds_def all_succeed_def)
  then have out: "stdout (after_loop all_succeed 0 read_only_world) = []"
    by (simp add: after_loop_def read_only_world_def example_world_def)
  have "files (after_loop all_succeed 0 read_only_world) manifest_path =
      ((files read_only_world)(master_icon \<mapsto> Image 1024 1024)) manifest_path"
    using store_outputs_other [OF manifest_not_output] by (simp add: after_loop_def)
  also have "\<dots> = Some (Text ''stale'')"
    using manifest_not_master by (simp add: read_only_world_def example_world_def)
  finally show ?thesis
    using run out by simp
qed

lemma commands_distinct: "distinct (normalize_command # map command configs)"
  by code_simp

lemma entries_distinct: "distinct (map entry configs)"
  by code_simp




lemma run_output:
  assumes master: "files w master_icon \<noteq> None"
    and norm: "sips normalize_command = Exited s0"
    and loop: "\<forall>c\<in>set configs. exits sips (command c)"
    and written: "on_write w manifest_path = Written"
    and c: "c \<in> set configs"
  shows "files (snd (generate_icons sips w)) (output_path c) =
     (if succeeds sips c then Some (Image (px c) (px c)) else files w (output_path c))"
proof -
  from c have "output_path c \<in> output_path ` set configs"
    by simp
  then have ne: "output_path c \<noteq> manifest_path" "output_path c \<noteq> master_icon"
    using manifest_not_output master_not_output by metis+
  then show ?thesis
    using generate_icons_exits [OF master norm loop written] store_outputs_at [OF outputs_distinct c]
    by simp
qed

lemma run_master:
  assumes master: "files w master_icon \<noteq> None"
    and norm: "sips normalize_command = Exited s0"
    and loop: "\<forall>c\<in>set configs. exits sips (command c)"
    and written: "on_write w manifest_path = Written"
  shows "files (snd (generate_icons sips w)) master_icon =
     (if s0 = 0 then Some (Image 1024 1024) else files w master_icon)"
  using generate_icons_exits [OF master norm loop written] manifest_not_master
    store_outputs_other [OF master_not_output]
  by simp

lemma succeeds_exits: "succeeds sips c \<Longrightarrow> exits sips (command c)"
  by (simp add: succeeds_def exits_def)

lemma all_succeed_succeeds: "succeeds all_succeed c"
  by (simp add: succeeds_def all_succeed_def)

lemma normalize_fails_succeeds:
  assumes "c \<in> set configs"
  shows "succeeds normalize_fails c"
proof -
  from assms have "command c \<in> command ` set configs"
    by simp
  then have "command c \<noteq> normalize_command"
    using commands_distinct by auto
  then show ?thesis
    by (simp add: succeeds_def normalize_fails_def)
qed

lemma exits_cases:
  assumes "exits sips argv"
  obtains status where "sips argv = Exited status"
  using assms by (auto simp: exits_def split: outcome.splits)

lemma entry_in_filter:
  assumes "c \<in> set configs"
  shows "entry c \<in> set (map entry (filter P configs)) = P c"
proof -
  have inj: "inj_on entry (set configs)"
    using entries_distinct by (simp add: distinct_map)
  show ?thesis
  proof
    assume "entry c \<in> set (map entry (filter P configs))"
    then obtain d where d: "d \<in> set configs" "P d" "entry d = entry c"
      by auto
    with inj assms have "d = c"
      by (auto dest: inj_onD)
    with d show "P c" by simp
  next
    assume "P c"
    with assms show "entry c \<in> set (map entry (filter P configs))"
      by auto
  qed
qed

lemma one_fails_filter:
  "filter (succeeds one_fails) configs = take 16 configs @ drop 17 configs"
  by code_simp

lemma icon_loop_returned:
  "fst (icon_loop sips cs acc w) = Returned imgs \<Longrightarrow> \<forall>c\<in>set cs. exits sips (command c)"
proof (induction cs arbitrary: acc w)
  case Nil
  then show ?case by simp
next
  case (Cons c cs)
  show ?case
  proof (cases "sips (command c)")
    case (Not_started e)
    then have "fst (icon_loop sips (c # cs) acc w) = Raised (OSError e)"
      using resize_image_not_started [of sips master_icon "output_path c" "px c" "px c" e w]
      by (simp add: command_def)
    with Cons.prems show ?thesis by simp
  next
    case (Exited status)
    then have here: "exits sips (command c)"
      by (simp add: exits_def)
    show ?thesis
    proof (cases "status = 0")
      case True
      with Exited have "icon_loop sips (c # cs) acc w =
          icon_loop sips cs (acc @ [entry c])
            (w\<lparr>files := (files w)(output_path c \<mapsto> Image (px c) (px c)),
               launched := launched w @ [sips_argv master_icon (output_path c) (px c) (px c)]\<rparr>)"
        using resize_image_zero [of sips master_icon "output_path c" "px c" "px c" w]
        by (simp add: command_def)
      with Cons.prems Cons.IH here show ?thesis by simp
    next
      case False
      with Exited have "icon_loop sips (c # cs) acc w =
          icon_loop sips cs acc
            (w\<lparr>stdout := stdout w @ [''Failed to resize '' @ master_icon @ '' to '' @ output_path c],
               launched := launched w @ [sips_argv master_icon (output_path c) (px c) (px c)]\<rparr>)"
        using resize_image_nonzero [of sips master_icon "output_path c" "px c" "px c" status w]
        by (simp add: command_def)
      with Cons.prems Cons.IH here show ?thesis by simp
    qed
  qed
qed

lemma icon_loop_launched:
  "\<exists>n. launched (snd (icon_loop sips cs acc w)) = launched w @ take n (map command cs)"
proof (induction cs arbitrary: acc w)
  case Nil
  then show ?case by simp
next
  case (Cons c cs)
  show ?case
  proof (cases "sips (command c)")
    case (Not_started e)
    then have "launched (snd (icon_loop sips (c # cs) acc w)) =
        launched w @ take 1 (map command (c # cs))"
      using resize_image_not_started [of sips master_icon "output_path c" "px c" "px c" e w]
      by (simp add: command_def)
    then show ?thesis by blast
  next
    case (Exited status)
    show ?thesis
    proof (cases "status = 0")
      case True
      define w1 where "w1 = w\<lparr>files := (files w)(output_path c \<mapsto> Image (px c) (px c)),
               launched := launched w @ [command c]\<rparr>"
      from True Exited have step: "icon_loop sips (c # cs) acc w =
          icon_loop sips cs (acc @ [entry c]) w1"
        using resize_image_zero [of sips master_icon "output_path c" "px c" "px c" w]
        by (simp add: command_def w1_def)
      from Cons.IH [of "acc @ [entry c]" w1] obtain n where
        "launched (snd (icon_loop sips cs (acc @ [entry c]) w1)) = launched w1 @ take n (map command cs)"
        by blast
      with step have "launched (snd (icon_loop sips (c # cs) acc w)) =
          launched w @ take (Suc n) (map command (c # cs))"
        by (simp add: w1_def)
      then show ?thesis by blast
    next
      case False
      define w1 where "w1 = w\<lparr>stdout := stdout w @ [failure_line c],
               launched := launched w @ [command c]\<rparr>"
      from False Exited have step: "icon_loop sips (c # cs) acc w = icon_loop sips cs acc w1"
        using resize_image_nonzero [of sips master_icon "output_path c" "px c" "px c" status w]
        by (simp add: command_def w1_def failure_line_def)
      from Cons.IH [of acc w1] obtain n where
        "launched (snd (icon_loop sips cs acc w1)) = launched w1 @ take n (map command cs)"
        by blast
      with step have "launched (snd (icon_loop sips (c # cs) acc w)) =
          launched w @ take (Suc n) (map command (c # cs))"
        by (simp add: w1_def)
      then show ?thesis by blast
    qed
  qed
qed

lemma generate_icons_launched:
  "\<exists>n. launched (snd (generate_icons sips w)) =
     launched w @ take n (normalize_command # map command configs)"
proof (cases "files w master_icon = None")
  case True
  then have "launched (snd (generate_icons sips w)) =
      launched w @ take 0 (normalize_command # map command configs)"
    by (simp add: generate_icons_def os_path_exists_def print_def)
  then show ?thesis by blast
next
  case master: False
  show ?thesis
  proof (cases "sips normalize_command")
    case (Not_started e)
    then have "launched (snd (generate_icons sips w)) =
        launched w @ take 1 (normalize_command # map command configs)"
      using master resize_image_not_started [of sips master_icon master_icon 1024 1024 e w]
      by (simp add: generate_icons_def os_path_exists_def normalize_command_def)
    then show ?thesis by blast
  next
    case (Exited status)
    obtain r w1 where r: "resize_image sips master_icon master_icon 1024 1024 w = (Returned r, w1)"
      and w1: "launched w1 = launched w @ [normalize_command]"
      using Exited resize_image_zero [of sips master_icon master_icon 1024 1024 w]
        resize_image_nonzero [of sips master_icon master_icon 1024 1024 status w]
      by (cases "status = 0") (auto simp: normalize_command_def)
    obtain n where n: "launched (snd (icon_loop sips configs [] w1)) =
        launched w1 @ take n (map command configs)"
      using icon_loop_launched by blast
    have "launched (snd (generate_icons sips w)) = launched (snd (icon_loop sips configs [] w1))"
      using master r
      by (cases "icon_loop sips configs [] w1"; cases "fst (icon_loop sips configs [] w1)")
        (auto simp: generate_icons_def os_path_exists_def print_def write_file_def
          split: write_outcome.splits)
    with n w1 have "launched (snd (generate_icons sips w)) =
        launched w @ take (Suc n) (normalize_command # map command configs)"
      by simp
    then show ?thesis by blast
  qed
qed

lemma generate_icons_returned:
  assumes master: "files w master_icon \<noteq> None"
    and ret: "fst (generate_icons sips w) = Returned ()"
  shows "exits sips normalize_command \<and> (\<forall>c\<in>set configs. exits sips (command c))
       \<and> on_write w manifest_path = Written"
proof (cases "sips normalize_command")
  case (Not_started e)
  then have "fst (generate_icons sips w) = Raised (OSError e)"
    using master resize_image_not_started [of sips master_icon master_icon 1024 1024 e w]
    by (simp add: generate_icons_def os_path_exists_def normalize_command_def)
  with ret show ?thesis by simp
next
  case (Exited status)
  then have ex: "exits sips normalize_command"
    by (simp add: exits_def)
  obtain r w1 where r: "resize_image sips master_icon master_icon 1024 1024 w = (Returned r, w1)"
    using Exited resize_image_zero [of sips master_icon master_icon 1024 1024 w]
      resize_image_nonzero [of sips master_icon master_icon 1024 1024 status w]
    by (cases "status = 0") (auto simp: normalize_command_def)
  from ret master r obtain imgs where "fst (icon_loop sips configs [] w1) = Returned imgs"
    by (cases "icon_loop sips configs [] w1"; cases "fst (icon_loop sips configs [] w1)")
      (auto simp: generate_icons_def os_path_exists_def)
  then have loop: "\<forall>c\<in>set configs. exits sips (command c)"
    by (rule icon_loop_returned)
  have "on_write w manifest_path = Written"
  proof (cases "on_write w manifest_path")
    case Written
    then show ?thesis .
  next
    case (Open_failed e)
    then have "fst (generate_icons sips w) = Raised (OSError e)"
      by (simp add: generate_icons_reaches_write [OF master Exited loop] write_file_def
          after_loop_def)
    with ret show ?thesis by simp
  next
    case (Write_failed e n)
    then have "fst (generate_icons sips w) = Raised (OSError e)"
      by (simp add: generate_icons_reaches_write [OF master Exited loop] write_file_def
          after_loop_def)
    with ret show ?thesis by simp
  qed
  with ex loop show ?thesis by simp
qed

lemma resize_image_files_other:
  assumes "p \<noteq> out"
  shows "files (snd (resize_image sips i out wd h w)) p = files w p"
proof (cases "sips (sips_argv i out wd h)")
  case (Not_started e)
  then show ?thesis
    by (simp add: resize_image_not_started)
next
  case (Exited status)
  show ?thesis
  proof (cases "status = 0")
    case True
    with Exited assms show ?thesis
      by (simp add: resize_image_zero)
  next
    case False
    with Exited show ?thesis
      by (simp add: resize_image_nonzero)
  qed
qed

lemma icon_loop_files_other:
  "p \<notin> output_path ` set cs \<Longrightarrow> files (snd (icon_loop sips cs acc w)) p = files w p"
proof (induction cs arbitrary: acc w)
  case Nil
  then show ?case by simp
next
  case (Cons c cs)
  then have here: "p \<noteq> output_path c" and rest: "p \<notin> output_path ` set cs"
    by auto
  obtain r w1 where step: "resize_image sips master_icon (output_path c) (px c) (px c) w = (r, w1)"
    by (cases "resize_image sips master_icon (output_path c) (px c) (px c) w")
  have w1: "files w1 p = files w p"
    using resize_image_files_other [OF here, of sips master_icon "px c" "px c" w] step
    by simp
  show ?case
  proof (cases r)
    case (Raised e)
    with step w1 show ?thesis by simp
  next
    case (Returned ok)
    with step w1 Cons.IH [OF rest] show ?thesis by simp
  qed
qed

lemma icon_loop_raises:
  "\<exists>c\<in>set cs. \<not> exits sips (command c) \<Longrightarrow>
   \<exists>e. fst (icon_loop sips cs acc w) = Raised (OSError e)"
proof (induction cs arbitrary: acc w)
  case Nil
  then show ?case by simp
next
  case (Cons c cs)
  show ?case
  proof (cases "sips (command c)")
    case (Not_started e)
    then have "fst (icon_loop sips (c # cs) acc w) = Raised (OSError e)"
      using resize_image_not_started [of sips master_icon "output_path c" "px c" "px c" e w]
      by (simp add: command_def)
    then show ?thesis by blast
  next
    case (Exited status)
    then have "exits sips (command c)"
      by (simp add: exits_def)
    with Cons.prems have rest: "\<exists>c\<in>set cs. \<not> exits sips (command c)"
      by auto
    show ?thesis
    proof (cases "status = 0")
      case True
      with Exited have "icon_loop sips (c # cs) acc w =
          icon_loop sips cs (acc @ [entry c])
            (w\<lparr>files := (files w)(output_path c \<mapsto> Image (px c) (px c)),
               launched := launched w @ [sips_argv master_icon (output_path c) (px c) (px c)]\<rparr>)"
        using resize_image_zero [of sips master_icon "output_path c" "px c" "px c" w]
        by (simp add: command_def)
      with Cons.IH [OF rest] show ?thesis by simp
    next
      case False
      with Exited have "icon_loop sips (c # cs) acc w =
          icon_loop sips cs acc
            (w\<lparr>stdout := stdout w @ [''Failed to resize '' @ master_icon @ '' to '' @ output_path c],
               launched := launched w @ [sips_argv master_icon (output_path c) (px c) (px c)]\<rparr>)"
        using resize_image_nonzero [of sips master_icon "output_path c" "px c" "px c" status w]
        by (simp add: command_def)
      with Cons.IH [OF rest] show ?thesis by simp
    qed
  qed
qed

lemma generate_icons_not_started:
  assumes master: "files w master_icon \<noteq> None"
    and some: "\<not> (exits sips normalize_command \<and> (\<forall>c\<in>set configs. exits sips (command c)))"
  shows "(\<exists>e. fst (generate_icons sips w) = Raised (OSError e))
       \<and> files (snd (generate_icons sips w)) manifest_path = files w manifest_path"
proof (cases "sips normalize_command")
  case (Not_started e)
  then have "generate_icons sips w =
      (Raised (OSError e), w\<lparr>launched := launched w @ [normalize_command]\<rparr>)"
    using master resize_image_not_started [of sips master_icon master_icon 1024 1024 e w]
    by (simp add: generate_icons_def os_path_exists_def normalize_command_def)
  then show ?thesis by simp
next
  case (Exited status)
  then have "exits sips normalize_command"
    by (simp add: exits_def)
  with some have loop: "\<exists>c\<in>set configs. \<not> exits sips (command c)"
    by simp
  obtain r w1 where r: "resize_image sips master_icon master_icon 1024 1024 w = (Returned r, w1)"
    using Exited resize_image_zero [of sips master_icon master_icon 1024 1024 w]
      resize_image_nonzero [of sips master_icon master_icon 1024 1024 status w]
    by (cases "status = 0") (auto simp: normalize_command_def)
  have w1: "files w1 manifest_path = files w manifest_path"
    using resize_image_files_other [OF manifest_not_master, of sips master_icon 1024 1024 w] r
    by simp
  from icon_loop_raises [OF loop] obtain e where
    e: "fst (icon_loop sips configs [] w1) = Raised (OSError e)"
    by blast
  have w2: "files (snd (icon_loop sips configs [] w1)) manifest_path = files w1 manifest_path"
    using icon_loop_files_other [OF manifest_not_output] .
  have "generate_icons sips w = (Raised (OSError e), snd (icon_loop sips configs [] w1))"
    using master r e
    by (cases "icon_loop sips configs [] w1") (simp add: generate_icons_def os_path_exists_def)
  with w1 w2 show ?thesis by simp
qed

lemma py_int_truncates:
  "truncation_of (value_of size_pt * of_int scale) (py_int (times_int size_pt scale))"
proof (cases size_pt)
  case (PyInt i)
  have "(0::rat) \<le> of_int (i * scale) * of_int (i * scale)"
    by simp
  then show ?thesis
    using PyInt by (simp add: truncation_of_def)
next
  case (PyFloat q)
  define r where "r = q * of_int scale"
  have "truncation_of r (if 0 \<le> r then \<lfloor>r\<rfloor> else \<lceil>r\<rceil>)"
  proof (cases "0 \<le> r")
    case True
    then have "0 \<le> \<lfloor>r\<rfloor>" by simp
    moreover have "of_int \<lfloor>r\<rfloor> \<le> r" "r < of_int \<lfloor>r\<rfloor> + 1"
      by linarith+
    ultimately show ?thesis
      using True by (simp add: truncation_of_def)
  next
    case False
    then have neg: "r < 0" by simp
    then have t: "\<lceil>r\<rceil> \<le> 0" by (simp add: ceiling_le_zero)
    then have t': "(of_int \<lceil>r\<rceil> :: rat) \<le> 0" by simp
    have up: "r \<le> of_int \<lceil>r\<rceil>" and low: "of_int \<lceil>r\<rceil> - 1 < r"
      by linarith+
    have sign: "0 \<le> of_int \<lceil>r\<rceil> * r"
      using t' neg by (simp add: mult_nonpos_nonpos)
    have a1: "\<bar>of_int \<lceil>r\<rceil> :: rat\<bar> = - of_int \<lceil>r\<rceil>"
      using t' by simp
    have a2: "\<bar>r\<bar> = - r"
      using neg by simp
    have "\<bar>of_int \<lceil>r\<rceil> :: rat\<bar> \<le> \<bar>r\<bar>" "\<bar>r\<bar> < \<bar>of_int \<lceil>r\<rceil> :: rat\<bar> + 1"
      unfolding a1 a2 using up low by linarith+
    with sign neg show ?thesis
      by (simp add: truncation_of_def)
  qed
  then have "truncation_of (q * of_int scale)
      (if 0 \<le> q * of_int scale then \<lfloor>q * of_int scale\<rfloor> else \<lceil>q * of_int scale\<rceil>)"
    unfolding r_def .
  with PyFloat show ?thesis
    by simp
qed

lemma digit_char_digit: "d < 10 \<Longrightarrow> digit_char d \<in> set ''0123456789''"
proof -
  assume "d < 10"
  then have "d \<in> {0, 1, 2, 3, 4, 5, 6, 7, 8, 9}"
    by auto
  then show ?thesis
    by (auto simp: digit_char_def)
qed

lemma str_nat_digits: "set (str_nat n) \<subseteq> set ''0123456789''"
proof (induction n rule: str_nat.induct)
  case (1 n)
  show ?case
  proof (cases "n < 10")
    case True
    then show ?thesis
      using digit_char_digit [of n] by (subst str_nat.simps) simp
  next
    case False
    have "n mod 10 < 10" by simp
    then have "digit_char (n mod 10) \<in> set ''0123456789''"
      by (rule digit_char_digit)
    with False 1 show ?thesis
      by (subst str_nat.simps) simp
  qed
qed

lemma str_int_no_point: "CHR ''.'' \<notin> set (str_int i)"
  using str_nat_digits [of "nat i"] str_nat_digits [of "nat (- i)"]
  by (auto simp: str_int_def)

lemma int_differs_from_half: "differs (PyInt i) (PyFloat (167 / 2))"
proof -
  have "(of_int i :: rat) \<noteq> 167 / 2"
  proof
    assume "(of_int i :: rat) = 167 / 2"
    then have "(of_int (2 * i) :: rat) = of_int 167"
      by simp
    then have "2 * i = 167"
      by (simp only: of_int_eq_iff)
    then show False by presburger
  qed
  then show ?thesis
    by (simp add: differs_def)
qed

lemma one_entry_manifest_text:
  \<open>json_dumps 2 (contents [entry (configs ! 16)]) =
     join_with [CHR 0x0A]
       [''{'',
        ''  "images": ['',
        ''    {'',
        ''      "size": "83.5x83.5",'',
        ''      "idiom": "ipad",'',
        ''      "filename": "Icon-83.5x83.5@2x~ipad.png",'',
        ''      "scale": "2x"'',
        ''    }'',
        ''  ],'',
        ''  "info": {'',
        ''    "version": 1,'',
        ''    "author": "xcode"'',
        ''  }'',
        ''}'']\<close>
  by code_simp

section \<open>A run in which every derivative is produced\<close>

text \<open>
  Claim C1 says that whenever the master image exists and each of the eighteen resizes
  of the loop succeeds, the manifest has eighteen entries in the order of the
  configurations, eighteen distinct derivative files are written, and the master is
  normalised. The result of normalising the master in place is ignored by
  \<open>generate_icons\<close>, so the last part depends on a nineteenth resize that the claim
  does not mention. What holds: if the master exists, its normalisation ends with some
  exit status \<open>s0\<close>, the eighteen resizes of the loop succeed and the manifest file can
  be written, then the run returns, the manifest is the serialisation of the eighteen
  entries in configuration order, each of the eighteen pairwise distinct destinations
  holds an image of its pixel size, and the master is a 1024 by 1024 image if \<open>s0\<close> is
  zero. Nothing is said about the master when \<open>s0\<close> is not zero.
\<close>

theorem all_derivatives_succeed:
  assumes master: "files w master_icon \<noteq> None"
    and norm: "sips normalize_command = Exited s0"
    and loop: "\<forall>c\<in>set configs. succeeds sips c"
    and written: "on_write w manifest_path = Written"
  shows "fst (generate_icons sips w) = Returned ()
       \<and> files (snd (generate_icons sips w)) manifest_path =
           Some (Text (json_dumps 2 (contents (map entry configs))))
       \<and> length (map entry configs) = 18
       \<and> distinct (map entry configs)
       \<and> (\<forall>c\<in>set configs.
             files (snd (generate_icons sips w)) (output_path c) = Some (Image (px c) (px c)))
       \<and> length (map output_path configs) = 18
       \<and> distinct (map output_path configs)
       \<and> (s0 = 0 \<longrightarrow>
             files (snd (generate_icons sips w)) master_icon = Some (Image 1024 1024))"
proof -
  from loop have ex: "\<forall>c\<in>set configs. exits sips (command c)"
    by (simp add: succeeds_exits)
  from loop have all: "filter (succeeds sips) configs = configs"
    by simp
  have "fst (generate_icons sips w) = Returned ()"
    using generate_icons_exits [OF master norm ex written] by simp
  moreover have "files (snd (generate_icons sips w)) manifest_path =
      Some (Text (json_dumps 2 (contents (map entry configs))))"
    using generate_icons_exits [OF master norm ex written] all by simp
  moreover have "\<forall>c\<in>set configs.
      files (snd (generate_icons sips w)) (output_path c) = Some (Image (px c) (px c))"
    using run_output [OF master norm ex written] loop by simp
  moreover have "s0 = 0 \<longrightarrow>
      files (snd (generate_icons sips w)) master_icon = Some (Image 1024 1024)"
    using run_master [OF master norm ex written] by simp
  moreover note entries_distinct outputs_distinct length_configs
  ultimately show ?thesis by simp
qed

theorem all_derivatives_succeed_witness:
  "fst (generate_icons all_succeed example_world) = Returned ()
   \<and> files (snd (generate_icons all_succeed example_world)) manifest_path =
       Some (Text (json_dumps 2 (contents (map entry configs))))
   \<and> files (snd (generate_icons all_succeed example_world)) (output_path (configs ! 16)) =
       Some (Image 167 167)
   \<and> files (snd (generate_icons all_succeed example_world)) master_icon =
       Some (Image 1024 1024)"
proof -
  have master: "files example_world master_icon \<noteq> None"
    using manifest_not_master by (simp add: example_world_def)
  have norm: "all_succeed normalize_command = Exited 0"
    by (simp add: all_succeed_def)
  have loop: "\<forall>c\<in>set configs. succeeds all_succeed c"
    by (simp add: all_succeed_succeeds)
  have mem: "configs ! 16 \<in> set configs"
    by (simp add: length_configs)
  have written: "on_write example_world manifest_path = Written"
    by (simp add: example_world_def)
  have px: "px (configs ! 16) = 167"
    by (simp add: configs_def)
  show ?thesis
    using all_derivatives_succeed [OF master norm loop written] mem px by auto
qed

text \<open>
  Where only the normalisation of the master exits with a non-zero status, all eighteen
  entries and files are produced and the master keeps its old size.
\<close>

theorem master_not_normalized_counterexample:
  "filter (succeeds normalize_fails) configs = configs
   \<and> files example_world master_icon = Some (Image 2048 2048)
   \<and> fst (generate_icons normalize_fails example_world) = Returned ()
   \<and> files (snd (generate_icons normalize_fails example_world)) manifest_path =
       Some (Text (json_dumps 2 (contents (map entry configs))))
   \<and> files (snd (generate_icons normalize_fails example_world)) master_icon =
       Some (Image 2048 2048)
   \<and> files (snd (generate_icons normalize_fails example_world)) master_icon \<noteq>
       Some (Image 1024 1024)"
proof -
  have master0: "files example_world master_icon = Some (Image 2048 2048)"
    using manifest_not_master by (simp add: example_world_def)
  then have master: "files example_world master_icon \<noteq> None" by simp
  have norm: "normalize_fails normalize_command = Exited 1"
    by (simp add: normalize_fails_def)
  have all: "filter (succeeds normalize_fails) configs = configs"
    by (simp add: normalize_fails_succeeds)
  have ex: "\<forall>c\<in>set configs. exits normalize_fails (command c)"
    by (simp add: normalize_fails_succeeds succeeds_exits)
  have written: "on_write example_world manifest_path = Written"
    by (simp add: example_world_def)
  show ?thesis
    using generate_icons_exits [OF master norm ex written]
      run_master [OF master norm ex written] all master0
    by simp
qed

section \<open>Partial failure\<close>

text \<open>
  Claim C2 says that for every pattern of outcomes of the eighteen resizes the manifest
  has eighteen entries minus the failed ones, a failed resize only omits its own entry,
  processing continues and the manifest is written. This holds for the failures that
  \<open>resize_image\<close> reports by returning \<open>False\<close>: if the master exists, every command of
  the run ends with an exit status, zero or not, and the manifest file can be written,
  then the run returns, the manifest holds the entries of exactly the configurations
  whose resize succeeded, in configuration order, their number is eighteen minus the
  number of failed resizes, all nineteen commands are launched, and the success line is
  printed last. If instead the process of some command cannot be started, the run ends
  with that \<open>OSError\<close> and the manifest file is not touched.
\<close>

theorem partial_failure_tolerated:
  assumes master: "files w master_icon \<noteq> None"
  shows "(exits sips normalize_command \<and> (\<forall>c\<in>set configs. exits sips (command c))
            \<and> on_write w manifest_path = Written \<longrightarrow>
          fst (generate_icons sips w) = Returned ()
          \<and> files (snd (generate_icons sips w)) manifest_path =
              Some (Text (json_dumps 2 (contents (map entry (filter (succeeds sips) configs)))))
          \<and> length (map entry (filter (succeeds sips) configs)) =
              18 - length (filter (\<lambda>c. \<not> succeeds sips c) configs)
          \<and> (\<forall>c\<in>set configs.
                (entry c \<in> set (map entry (filter (succeeds sips) configs))) = succeeds sips c)
          \<and> launched (snd (generate_icons sips w)) =
              launched w @ normalize_command # map command configs
          \<and> last (stdout (snd (generate_icons sips w))) =
              ''Successfully generated icons and Contents.json'')
       \<and> (\<not> (exits sips normalize_command \<and> (\<forall>c\<in>set configs. exits sips (command c))) \<longrightarrow>
          (\<exists>e. fst (generate_icons sips w) = Raised (OSError e))
          \<and> files (snd (generate_icons sips w)) manifest_path = files w manifest_path)"
proof (intro conjI impI)
  assume a: "exits sips normalize_command \<and> (\<forall>c\<in>set configs. exits sips (command c))
      \<and> on_write w manifest_path = Written"
  then have loop: "\<forall>c\<in>set configs. exits sips (command c)"
    and written: "on_write w manifest_path = Written"
    by simp_all
  from a obtain s0 where s0: "sips normalize_command = Exited s0"
    using exits_cases by blast
  note run = generate_icons_exits [OF master s0 loop written]
  show "fst (generate_icons sips w) = Returned ()"
    using run by simp
  show "files (snd (generate_icons sips w)) manifest_path =
      Some (Text (json_dumps 2 (contents (map entry (filter (succeeds sips) configs)))))"
    using run by simp
  have "length (filter (succeeds sips) configs) + length (filter (\<lambda>c. \<not> succeeds sips c) configs) = 18"
    using sum_length_filter_compl [of "succeeds sips" configs] length_configs by simp
  then show "length (map entry (filter (succeeds sips) configs)) =
      18 - length (filter (\<lambda>c. \<not> succeeds sips c) configs)"
    by simp
  show "\<forall>c\<in>set configs.
      (entry c \<in> set (map entry (filter (succeeds sips) configs))) = succeeds sips c"
    using entry_in_filter by blast
  show "launched (snd (generate_icons sips w)) =
      launched w @ normalize_command # map command configs"
    using run by simp
  show "last (stdout (snd (generate_icons sips w))) =
      ''Successfully generated icons and Contents.json''"
    using run by simp
next
  assume "\<not> (exits sips normalize_command \<and> (\<forall>c\<in>set configs. exits sips (command c)))"
  from generate_icons_not_started [OF master this]
  show "\<exists>e. fst (generate_icons sips w) = Raised (OSError e)"
    and "files (snd (generate_icons sips w)) manifest_path = files w manifest_path"
    by simp_all
qed

theorem partial_failure_tolerated_witness:
  "fst (generate_icons one_fails example_world) = Returned ()
   \<and> files (snd (generate_icons one_fails example_world)) manifest_path =
       Some (Text (json_dumps 2 (contents (map entry (take 16 configs @ drop 17 configs)))))
   \<and> length (map entry (take 16 configs @ drop 17 configs)) = 17
   \<and> launched (snd (generate_icons one_fails example_world)) =
       normalize_command # map command configs
   \<and> exits not_installed normalize_command = False
   \<and> files (snd (generate_icons not_installed example_world)) manifest_path =
       Some (Text ''stale'')"
proof -
  have master: "files example_world master_icon \<noteq> None"
    using manifest_not_master by (simp add: example_world_def)
  have norm: "exits one_fails normalize_command"
    by (simp add: exits_def one_fails_def)
  have loop: "\<forall>c\<in>set configs. exits one_fails (command c)"
    by (simp add: exits_def one_fails_def)
  have written: "on_write example_world manifest_path = Written"
    by (simp add: example_world_def)
  have start: "launched example_world = []"
    by (simp add: example_world_def)
  have stale: "files example_world manifest_path = Some (Text ''stale'')"
    by (simp add: example_world_def)
  have missing: "exits not_installed normalize_command = False"
    by (simp add: exits_def not_installed_def)
  have first: "fst (generate_icons one_fails example_world) = Returned ()
      \<and> files (snd (generate_icons one_fails example_world)) manifest_path =
          Some (Text (json_dumps 2 (contents (map entry (take 16 configs @ drop 17 configs)))))
      \<and> launched (snd (generate_icons one_fails example_world)) =
          normalize_command # map command configs"
    using partial_failure_tolerated [OF master, of one_fails] norm loop written start
      one_fails_filter
    by simp
  have second: "files (snd (generate_icons not_installed example_world)) manifest_path =
      Some (Text ''stale'')"
    using partial_failure_tolerated [OF master, of not_installed] missing stale
    by simp
  from first second missing show ?thesis
    using length_configs by simp
qed

text \<open>
  A resize that fails because its process cannot be started is not tolerated. Where that
  happens for the second configuration, the exception ends the run: nothing after the
  second command is launched and no manifest is written (the manifest of an earlier run
  is still in place).
\<close>

theorem launch_error_aborts_counterexample:
  "second_not_started normalize_command = Exited 0
   \<and> second_not_started (command (configs ! 0)) = Exited 0
   \<and> second_not_started (command (configs ! 1)) = Not_started BlockingIOError
   \<and> fst (generate_icons second_not_started example_world) = Raised (OSError BlockingIOError)
   \<and> files (snd (generate_icons second_not_started example_world)) manifest_path =
       Some (Text ''stale'')
   \<and> launched (snd (generate_icons second_not_started example_world)) =
       [normalize_command, command (configs ! 0), command (configs ! 1)]"
  by code_simp

section \<open>Failure of the tool inside \<open>resize_image\<close>\<close>

text \<open>
  Claim C3 says that \<open>resize_image\<close> returns \<open>False\<close>, prints a diagnostic and never
  raises on any failure of the tool, a non-zero exit status or an invocation error
  alike. The handler of \<open>resize_image\<close> is for \<open>CalledProcessError\<close> only, so this holds
  for a non-zero exit status: the function returns \<open>False\<close>, prints one line naming
  the input path and the output path, and leaves the files alone.
\<close>

theorem resize_image_nonzero_exit:
  assumes "sips (sips_argv input_path out_path width height) = Exited status"
    and "status \<noteq> 0"
  shows "fst (resize_image sips input_path out_path width height w) = Returned False
       \<and> stdout (snd (resize_image sips input_path out_path width height w)) =
           stdout w @ [''Failed to resize '' @ input_path @ '' to '' @ out_path]
       \<and> files (snd (resize_image sips input_path out_path width height w)) = files w"
  using assms by (simp add: resize_image_def subprocess_run_def print_def)

theorem resize_image_nonzero_exit_witness:
  "fst (resize_image all_fail ''in.png'' ''out.png'' 40 40 empty_world) = Returned False
   \<and> stdout (snd (resize_image all_fail ''in.png'' ''out.png'' 40 40 empty_world)) =
       [''Failed to resize in.png to out.png'']
   \<and> files (snd (resize_image all_fail ''in.png'' ''out.png'' 40 40 empty_world)) = Map.empty"
  using resize_image_nonzero_exit [of all_fail "''in.png''" "''out.png''" 40 40 1 empty_world]
  by (simp add: all_fail_def empty_world_def)

text \<open>
  An invocation error is not handled. Where the tool is not installed,
  \<open>subprocess.run\<close> raises \<open>FileNotFoundError\<close>, which leaves \<open>resize_image\<close>: no boolean
  is returned and nothing is printed.
\<close>

theorem resize_image_launch_error_counterexample:
  "fst (resize_image not_installed ''in.png'' ''out.png'' 40 40 empty_world) =
     Raised (OSError FileNotFoundError)
   \<and> fst (resize_image not_installed ''in.png'' ''out.png'' 40 40 empty_world) \<noteq> Returned False
   \<and> stdout (snd (resize_image not_installed ''in.png'' ''out.png'' 40 40 empty_world)) = []"
  by (simp add: resize_image_def subprocess_run_def not_installed_def empty_world_def)

section \<open>A missing master image\<close>

text \<open>
  Claim C4: if the master image does not exist at its fixed path, \<open>generate_icons\<close>
  prints a diagnostic and returns early. No file is created or changed (so neither a
  derivative image nor a manifest is written), the tool is never launched, and no
  exception leaves the function.
\<close>

theorem master_absent_no_effect:
  assumes "files w master_icon = None"
  shows "fst (generate_icons sips w) = Returned ()
       \<and> files (snd (generate_icons sips w)) = files w
       \<and> launched (snd (generate_icons sips w)) = launched w
       \<and> stdout (snd (generate_icons sips w)) =
           stdout w @ [''Error: Master icon not found at '' @ master_icon]"
  using assms by (simp add: generate_icons_def os_path_exists_def print_def)

theorem master_absent_no_effect_witness:
  "fst (generate_icons all_succeed empty_world) = Returned ()
   \<and> files (snd (generate_icons all_succeed empty_world)) = Map.empty
   \<and> launched (snd (generate_icons all_succeed empty_world)) = []
   \<and> stdout (snd (generate_icons all_succeed empty_world)) =
       [''Error: Master icon not found at '' @ master_icon]"
  using master_absent_no_effect [of empty_world all_succeed]
  by (simp add: empty_world_def)

section \<open>Pixel dimensions\<close>

text \<open>
  Claim C5: the pixel dimension passed to the resize of a configuration is the integer
  part of logical size times scale, truncated towards zero, and it is used for both
  axes. Whenever the master exists and every command ends with an exit status, the run
  launches exactly nineteen commands: the normalisation of the master and then, for each
  configuration in order, the resize whose width and height are both \<open>px\<close> of that
  configuration. In any run at all, the commands launched are an initial part of these.
  \<open>px\<close> is the truncation of the product; the configuration \<open>(83.5, 2, "ipad")\<close> gives
  167 and \<open>(20, 3, "iphone")\<close> gives 60. At scale 1 the size 83.5 would give 83, not
  84: the fraction is dropped, not rounded.
\<close>

theorem pixel_dimension_truncates:
  "(files w master_icon \<noteq> None \<and> exits sips normalize_command
      \<and> (\<forall>c\<in>set configs. exits sips (command c)) \<longrightarrow>
      launched (snd (generate_icons sips w)) =
        launched w @ sips_argv master_icon master_icon 1024 1024
          # map (\<lambda>c. sips_argv master_icon (output_path c) (px c) (px c)) configs)
   \<and> (\<exists>n. launched (snd (generate_icons sips w)) =
         launched w @ take n (sips_argv master_icon master_icon 1024 1024
           # map (\<lambda>c. sips_argv master_icon (output_path c) (px c) (px c)) configs))
   \<and> truncation_of (value_of size_pt * of_int scale) (px (suffix, size_pt, scale, idiom))
   \<and> px (suffix, PyFloat (167 / 2), 2, ''ipad'') = 167
   \<and> px (suffix, PyInt 20, 3, ''iphone'') = 60
   \<and> px (suffix, PyFloat (167 / 2), 1, ''ipad'') = 83
   \<and> map px configs =
       [40, 60, 58, 87, 80, 120, 120, 180, 20, 40, 29, 58, 40, 80, 76, 152, 167, 1024]"
proof -
  have cmds: "normalize_command # map command configs =
      sips_argv master_icon master_icon 1024 1024
        # map (\<lambda>c. sips_argv master_icon (output_path c) (px c) (px c)) configs"
    by (simp add: normalize_command_def command_def)
  have "files w master_icon \<noteq> None \<and> exits sips normalize_command
      \<and> (\<forall>c\<in>set configs. exits sips (command c)) \<longrightarrow>
      launched (snd (generate_icons sips w)) =
        launched w @ sips_argv master_icon master_icon 1024 1024
          # map (\<lambda>c. sips_argv master_icon (output_path c) (px c) (px c)) configs"
  proof
    assume a: "files w master_icon \<noteq> None \<and> exits sips normalize_command
      \<and> (\<forall>c\<in>set configs. exits sips (command c))"
    then obtain s0 where s0: "sips normalize_command = Exited s0"
      using exits_cases by blast
    from a have master: "files w master_icon \<noteq> None"
      and loop: "\<forall>c\<in>set configs. exits sips (command c)"
      by simp_all
    have "launched (snd (generate_icons sips w)) =
        launched w @ normalize_command # map command configs"
      using master s0 loop by (rule generate_icons_all_launched)
    then show "launched (snd (generate_icons sips w)) =
        launched w @ sips_argv master_icon master_icon 1024 1024
          # map (\<lambda>c. sips_argv master_icon (output_path c) (px c) (px c)) configs"
      unfolding cmds .
  qed
  moreover have "\<exists>n. launched (snd (generate_icons sips w)) =
         launched w @ take n (sips_argv master_icon master_icon 1024 1024
           # map (\<lambda>c. sips_argv master_icon (output_path c) (px c) (px c)) configs)"
    using generate_icons_launched [of sips w] unfolding cmds .
  moreover have "truncation_of (value_of size_pt * of_int scale) (px (suffix, size_pt, scale, idiom))"
    using py_int_truncates by simp
  moreover have "px (suffix, PyFloat (167 / 2), 2, ''ipad'') = 167"
    by simp
  moreover have "px (suffix, PyInt 20, 3, ''iphone'') = 60"
    by simp
  moreover have "px (suffix, PyFloat (167 / 2), 1, ''ipad'') = 83"
  proof -
    have "\<lfloor>167 / 2 :: rat\<rfloor> = 83"
      by (rule floor_unique) simp_all
    then show ?thesis by simp
  qed
  moreover have "map px configs =
       [40, 60, 58, 87, 80, 120, 120, 180, 20, 40, 29, 58, 40, 80, 76, 152, 167, 1024]"
    by (simp add: configs_def)
  ultimately show ?thesis by blast
qed


theorem pixel_dimension_truncates_witness:
  "launched (snd (generate_icons one_fails example_world)) =
     sips_argv master_icon master_icon 1024 1024
       # map (\<lambda>c. sips_argv master_icon (output_path c) (px c) (px c)) configs"
proof -
  have master: "files example_world master_icon \<noteq> None"
    using manifest_not_master by (simp add: example_world_def)
  have norm: "exits one_fails normalize_command"
    by (simp add: exits_def one_fails_def)
  have loop: "\<forall>c\<in>set configs. exits one_fails (command c)"
    by (simp add: exits_def one_fails_def)
  have "launched example_world = []"
    by (simp add: example_world_def)
  then show ?thesis
    using pixel_dimension_truncates [of example_world one_fails] master norm loop
    by simp
qed

section \<open>The size field of a manifest entry\<close>

text \<open>
  Claim C6: the size field of an entry is the logical size written as width \<open>x\<close>
  height, with equal width and height. An integer size is written as the integer,
  without a decimal point (60 gives \<open>60x60\<close>); the size 83.5 gives \<open>83.5x83.5\<close>. The
  size fields of the eighteen configurations are listed.
\<close>

theorem size_field_format:
  "field ''size'' (entry (suffix, PyInt i, scale, idiom)) =
     Some (VStr (str_int i @ ''x'' @ str_int i))
   \<and> CHR ''.'' \<notin> set (str_int i)
   \<and> field ''size'' (entry (suffix, PyFloat (167 / 2), scale, idiom)) = Some (VStr ''83.5x83.5'')
   \<and> field ''size'' (entry (suffix, PyInt 60, scale, idiom)) = Some (VStr ''60x60'')
   \<and> map (field ''size'') (map entry configs) =
       map (\<lambda>s. Some (VStr s))
         [''20x20'', ''20x20'', ''29x29'', ''29x29'', ''40x40'', ''40x40'', ''60x60'', ''60x60'',
          ''20x20'', ''20x20'', ''29x29'', ''29x29'', ''40x40'', ''40x40'', ''76x76'', ''76x76'',
          ''83.5x83.5'', ''1024x1024'']"
proof -
  have "field ''size'' (entry (suffix, PyInt i, scale, idiom)) =
     Some (VStr (str_int i @ ''x'' @ str_int i))"
    using int_differs_from_half [of i] by simp
  moreover have "field ''size'' (entry (suffix, PyFloat (167 / 2), scale, idiom)) =
     Some (VStr ''83.5x83.5'')"
    by (simp add: differs_def)
  moreover have "field ''size'' (entry (suffix, PyInt 60, scale, idiom)) = Some (VStr ''60x60'')"
    by code_simp
  moreover have "map (field ''size'') (map entry configs) =
       map (\<lambda>s. Some (VStr s))
         [''20x20'', ''20x20'', ''29x29'', ''29x29'', ''40x40'', ''40x40'', ''60x60'', ''60x60'',
          ''20x20'', ''20x20'', ''29x29'', ''29x29'', ''40x40'', ''40x40'', ''76x76'', ''76x76'',
          ''83.5x83.5'', ''1024x1024'']"
    by code_simp
  ultimately show ?thesis
    using str_int_no_point by blast
qed

section \<open>The manifest document\<close>

text \<open>
  Claim C7 says that the manifest is a document with three top-level fields, the list
  of entries and the fixed metadata object, written as JSON with an indentation of two
  spaces to a fixed path in the directory of the master image, replacing a file that is
  there. The document has two top-level fields, \<open>images\<close> and \<open>info\<close>; the rest
  holds. Whenever the master exists and the run returns, the file \<open>Contents.json\<close> in
  the directory of the master holds, whatever it held before, the serialisation with
  indentation 2 of the object whose field \<open>images\<close> is the list of entries and whose
  field \<open>info\<close> is \<open>{version: 1, author: "xcode"}\<close>. The text for a single entry
  shows the indentation.
\<close>

theorem manifest_document:
  assumes master: "files w master_icon \<noteq> None"
    and returned: "fst (generate_icons sips w) = Returned ()"
  shows \<open>files (snd (generate_icons sips w)) manifest_path =
           Some (Text (json_dumps 2 (contents (map entry (filter (succeeds sips) configs)))))
       \<and> manifest_path = os_path_join base_dir ''Contents.json''
       \<and> master_icon = os_path_join base_dir ''AppIcon.png''
       \<and> keys (contents json_images) = [''images'', ''info'']
       \<and> field ''images'' (contents json_images) = Some (VList json_images)
       \<and> field ''info'' (contents json_images) =
           Some (VDict [(''version'', VInt 1), (''author'', VStr ''xcode'')])
       \<and> json_dumps 2 (contents [entry (configs ! 16)]) =
           join_with [CHR 0x0A]
             [''{'',
              ''  "images": ['',
              ''    {'',
              ''      "size": "83.5x83.5",'',
              ''      "idiom": "ipad",'',
              ''      "filename": "Icon-83.5x83.5@2x~ipad.png",'',
              ''      "scale": "2x"'',
              ''    }'',
              ''  ],'',
              ''  "info": {'',
              ''    "version": 1,'',
              ''    "author": "xcode"'',
              ''  }'',
              ''}'']\<close>
proof -
  from generate_icons_returned [OF master returned]
  have norm: "exits sips normalize_command"
    and loop: "\<forall>c\<in>set configs. exits sips (command c)"
    and written: "on_write w manifest_path = Written"
    by simp_all
  from norm obtain s0 where s0: "sips normalize_command = Exited s0"
    by (rule exits_cases)
  have "files (snd (generate_icons sips w)) manifest_path =
      Some (Text (json_dumps 2 (contents (map entry (filter (succeeds sips) configs)))))"
    using generate_icons_exits [OF master s0 loop written] by simp
  then show ?thesis
    using one_entry_manifest_text
    by (simp add: manifest_path_def master_icon_def contents_def)
qed

theorem manifest_document_witness:
  "files example_world manifest_path = Some (Text ''stale'')
   \<and> files (snd (generate_icons all_succeed example_world)) manifest_path =
       Some (Text (json_dumps 2 (contents (map entry configs))))"
proof -
  have master: "files example_world master_icon \<noteq> None"
    using manifest_not_master by (simp add: example_world_def)
  have ex: "\<forall>c\<in>set configs. exits all_succeed (command c)"
    by (simp add: exits_def all_succeed_def)
  have norm: "all_succeed normalize_command = Exited 0"
    by (simp add: all_succeed_def)
  have written: "on_write example_world manifest_path = Written"
    by (simp add: example_world_def)
  have returned: "fst (generate_icons all_succeed example_world) = Returned ()"
    using generate_icons_exits [OF master norm ex written] by simp
  have all: "filter (succeeds all_succeed) configs = configs"
    by (simp add: all_succeed_succeeds)
  have "files example_world manifest_path = Some (Text ''stale'')"
    by (simp add: example_world_def)
  then show ?thesis
    using manifest_document [OF master returned] all by simp
qed

text \<open>
  In a run in which every resize succeeds the manifest written has exactly the two
  top-level fields \<open>images\<close> and \<open>info\<close>, not three.
\<close>

theorem two_top_level_fields_counterexample:
  "fst (generate_icons all_succeed example_world) = Returned ()
   \<and> files (snd (generate_icons all_succeed example_world)) manifest_path =
       Some (Text (json_dumps 2 (contents (map entry configs))))
   \<and> keys (contents (map entry configs)) = [''images'', ''info'']
   \<and> length (keys (contents (map entry configs))) = 2
   \<and> length (keys (contents (map entry configs))) \<noteq> 3"
proof -
  have master: "files example_world master_icon \<noteq> None"
    using manifest_not_master by (simp add: example_world_def)
  have ex: "\<forall>c\<in>set configs. exits all_succeed (command c)"
    by (simp add: exits_def all_succeed_def)
  have all: "filter (succeeds all_succeed) configs = configs"
    by (simp add: all_succeed_succeeds)
  have norm: "all_succeed normalize_command = Exited 0"
    by (simp add: all_succeed_def)
  have written: "on_write example_world manifest_path = Written"
    by (simp add: example_world_def)
  show ?thesis
    using generate_icons_exits [OF master norm ex written] all
    by (simp add: contents_def)
qed

section \<open>Running the generator twice\<close>

text \<open>
  Claim C8: if the generator is run twice, every resize succeeds in both runs and both
  runs return, the two runs write the same manifest, byte for byte: the second run,
  started in the environment the first run left, replaces \<open>Contents.json\<close> by the text
  that is already there, the serialisation of the eighteen entries in configuration
  order.
\<close>

theorem manifest_idempotent:
  assumes master: "files w master_icon \<noteq> None"
    and first_norm: "sips1 normalize_command = Exited 0"
    and first_loop: "\<forall>c\<in>set configs. succeeds sips1 c"
    and second_norm: "sips2 normalize_command = Exited 0"
    and second_loop: "\<forall>c\<in>set configs. succeeds sips2 c"
    and first_returns: "fst (generate_icons sips1 w) = Returned ()"
    and second_returns: "fst (generate_icons sips2 (snd (generate_icons sips1 w))) = Returned ()"
  shows "files (snd (generate_icons sips1 w)) manifest_path =
           Some (Text (json_dumps 2 (contents (map entry configs))))
       \<and> files (snd (generate_icons sips2 (snd (generate_icons sips1 w)))) manifest_path =
           files (snd (generate_icons sips1 w)) manifest_path"
proof -
  define w1 where "w1 = snd (generate_icons sips1 w)"
  from first_loop have ex1: "\<forall>c\<in>set configs. exits sips1 (command c)"
    by (simp add: succeeds_exits)
  from second_loop have ex2: "\<forall>c\<in>set configs. exits sips2 (command c)"
    by (simp add: succeeds_exits)
  from first_loop have all1: "filter (succeeds sips1) configs = configs"
    by simp
  from second_loop have all2: "filter (succeeds sips2) configs = configs"
    by simp
  have written: "on_write w manifest_path = Written"
    using generate_icons_returned [OF master first_returns] by simp
  have master1: "files w1 master_icon \<noteq> None"
    using run_master [OF master first_norm ex1 written] by (simp add: w1_def)
  have m1: "files w1 manifest_path = Some (Text (json_dumps 2 (contents (map entry configs))))"
    using generate_icons_exits [OF master first_norm ex1 written] all1 by (simp add: w1_def)
  have written1: "on_write w1 manifest_path = Written"
    using generate_icons_returned [OF master1] second_returns by (simp add: w1_def)
  have m2: "files (snd (generate_icons sips2 w1)) manifest_path =
        Some (Text (json_dumps 2 (contents (map entry configs))))"
    using generate_icons_exits [OF master1 second_norm ex2 written1] all2 by simp
  from m1 m2 show ?thesis
    unfolding w1_def by simp
qed

theorem manifest_idempotent_witness:
  "fst (generate_icons all_succeed example_world) = Returned ()
   \<and> fst (generate_icons all_succeed (snd (generate_icons all_succeed example_world))) = Returned ()
   \<and> files (snd (generate_icons all_succeed example_world)) manifest_path =
       Some (Text (json_dumps 2 (contents (map entry configs))))
   \<and> files (snd (generate_icons all_succeed (snd (generate_icons all_succeed example_world))))
         manifest_path =
       files (snd (generate_icons all_succeed example_world)) manifest_path"
proof -
  have master: "files example_world master_icon \<noteq> None"
    using manifest_not_master by (simp add: example_world_def)
  have norm: "all_succeed normalize_command = Exited 0"
    by (simp add: all_succeed_def)
  have loop: "\<forall>c\<in>set configs. succeeds all_succeed c"
    by (simp add: all_succeed_succeeds)
  have ex: "\<forall>c\<in>set configs. exits all_succeed (command c)"
    by (simp add: exits_def all_succeed_def)
  have written: "on_write example_world manifest_path = Written"
    by (simp add: example_world_def)
  note first = generate_icons_exits [OF master norm ex written]
  have r1: "fst (generate_icons all_succeed example_world) = Returned ()"
    using first by simp
  have master1: "files (snd (generate_icons all_succeed example_world)) master_icon \<noteq> None"
    using run_master [OF master norm ex written] by simp
  have written1: "on_write (snd (generate_icons all_succeed example_world)) manifest_path = Written"
    using first written by simp
  have r2: "fst (generate_icons all_succeed (snd (generate_icons all_succeed example_world))) =
      Returned ()"
    using generate_icons_exits [OF master1 norm ex written1] by simp
  show ?thesis
    using manifest_idempotent [OF master norm loop norm loop r1 r2] r1 r2 by simp
qed

section \<open>A run in which every resize fails\<close>



section \<open>The destinations never collide\<close>

text \<open>
  Claim C10: the eighteen suffix labels are pairwise distinct, hence so are the
  eighteen file names \<open>Icon-<suffix>.png\<close>, and none of them is the master's file name
  \<open>AppIcon.png\<close>. The same holds for the full paths: no derivative is written to the
  path of another derivative or to the path of the master image.
\<close>

theorem destinations_distinct:
  "length configs = 18
   \<and> distinct (map fst configs)
   \<and> distinct (''AppIcon.png'' # map filename configs)
   \<and> distinct (master_icon # map output_path configs)"
  by code_simp

end
